theory Spec2Isabelle
  imports Complex_Main
begin

section \<open>Values of the host language\<close>

text \<open>
  The visual is TypeScript compiled without strict null checks: every declared type is
  also inhabited by \<^verbatim>\<open>undefined\<close> and \<^verbatim>\<open>null\<close>. A value read from
  a metadata object is therefore either one of the two, or a value of the declared type.
  Numbers are idealised as reals.
\<close>

datatype 'a js = Undefined | Null | Val 'a

type_synonym number = real

text \<open>\<^verbatim>\<open>PrimitiveValue = string | number | boolean | Date\<close>, together with the two
  absent values. A date is kept as its time stamp.\<close>

datatype PrimitiveValue =
  PUndefined | PNull | PStr string | PNum number | PBool bool | PDate int

datatype error = TypeError

section \<open>The data the host hands over\<close>

text \<open>A metadata object maps property names to values, and \<^verbatim>\<open>metadata.objects\<close>
  maps object names to metadata objects. Reading a name that is not there gives
  \<^verbatim>\<open>undefined\<close>.\<close>

type_synonym 'a DataViewObject = "string \<rightharpoonup> 'a js"
type_synonym 'a DataViewObjects = "string \<rightharpoonup> 'a DataViewObject"

definition readProperty :: "'a DataViewObject \<Rightarrow> string \<Rightarrow> 'a js" where
  "readProperty object propertyName =
     (case object propertyName of None \<Rightarrow> Undefined | Some v \<Rightarrow> v)"

record DataViewMetadataColumn =
  displayName :: string

text \<open>The fields \<^verbatim>\<open>values\<close> of the three host interfaces are renamed apart
  (\<open>category_values\<close>, \<open>column_values\<close>, \<open>value_columns\<close>); the word itself is
  reserved.\<close>

record DataViewCategoryColumn =
  source :: "DataViewMetadataColumn option"
  category_values :: "PrimitiveValue list"

record DataViewValueColumn =
  column_values :: "PrimitiveValue list"
  maxLocal :: PrimitiveValue

record DataViewCategorical =
  categories :: "DataViewCategoryColumn list option"
  value_columns :: "DataViewValueColumn list option"

text \<open>The only property the visual declares is the boolean \<^verbatim>\<open>enableAxis.show\<close>,
  so the objects of a data view hold booleans.\<close>

record DataViewMetadata =
  objects :: "bool DataViewObjects option"

record DataView =
  metadata :: DataViewMetadata
  categorical :: "DataViewCategorical option"

record Viewport =
  width :: number
  height :: number

record VisualUpdateOptions =
  dataViews :: "DataView list option"
  viewport :: Viewport

text \<open>The two host services the transformation calls: the colour palette and the
  builder of selection identities, which are opaque (\<open>'id\<close>).\<close>

record 'id IVisualHost =
  getColor :: "PrimitiveValue \<Rightarrow> string"
  createSelectionId :: "DataViewCategoryColumn \<Rightarrow> nat \<Rightarrow> 'id"

section \<open>The view model\<close>

record EnableAxis =
  showAxis :: bool

record BarchartSettings =
  enableAxis :: EnableAxis

text \<open>The casts \<^verbatim>\<open><string>\<close> and \<^verbatim>\<open><number>\<close> of the source do nothing at run
  time, so \<open>category\<close> and \<open>dataMax\<close> hold whatever primitive value was read.\<close>

record 'id BarchartDataPoint =
  dp_value :: PrimitiveValue
  category :: PrimitiveValue
  color :: string
  selectionID :: 'id

record 'id BarchartViewModel =
  dataPoints :: "'id BarchartDataPoint list"
  dataMax :: PrimitiveValue
  settings :: BarchartSettings

section \<open>getOptionValue\<close>

text \<open>\<^verbatim>\<open>if(objects) { let object = objects[objectName]; if(object) { let property =
  object[propertyName]; if(property != undefined) return property; } } return defaultValue;\<close>
  The comparison is the loose one: it is false for \<^verbatim>\<open>undefined\<close> and for
  \<^verbatim>\<open>null\<close>.\<close>

definition getOptionValue ::
  "'a DataViewObjects option \<Rightarrow> string \<Rightarrow> string \<Rightarrow> 'a \<Rightarrow> 'a" where
  "getOptionValue objs objectName propertyName defaultValue =
     (case objs of
        None \<Rightarrow> defaultValue
      | Some os \<Rightarrow>
          (case os objectName of
             None \<Rightarrow> defaultValue
           | Some object \<Rightarrow>
               (case readProperty object propertyName of
                  Val property \<Rightarrow> property
                | Undefined \<Rightarrow> defaultValue
                | Null \<Rightarrow> defaultValue)))"

section \<open>visualTransform\<close>

definition defaultSettings :: BarchartSettings where
  "defaultSettings = \<lparr>enableAxis = \<lparr>showAxis = False\<rparr>\<rparr>"

definition dataInfo :: "'id BarchartViewModel" where
  "dataInfo = \<lparr>dataPoints = [], dataMax = PNum 0, settings = defaultSettings\<rparr>"

text \<open>Reading an array past its end gives \<^verbatim>\<open>undefined\<close>.\<close>

definition at_index :: "PrimitiveValue list \<Rightarrow> nat \<Rightarrow> PrimitiveValue" where
  "at_index xs i = (if i < length xs then xs ! i else PUndefined)"

text \<open>The condition of the early return, disjunct by disjunct and from left to right.
  \<open>Inr True\<close>: the condition holds and the empty view model is returned.
  \<open>Inr False\<close>: the table goes on to the row construction. \<open>Inl TypeError\<close>:
  \<^verbatim>\<open>categories[0]\<close> is \<^verbatim>\<open>undefined\<close> and reading its \<^verbatim>\<open>source\<close> throws.\<close>

definition guard :: "VisualUpdateOptions \<Rightarrow> error + bool" where
  "guard options =
     (case dataViews options of
        None \<Rightarrow> Inr True
      | Some [] \<Rightarrow> Inr True
      | Some (dv # _) \<Rightarrow>
          (case categorical dv of
             None \<Rightarrow> Inr True
           | Some cat \<Rightarrow>
               (case categories cat of
                  None \<Rightarrow> Inr True
                | Some [] \<Rightarrow> Inl TypeError
                | Some (c # _) \<Rightarrow>
                    (case source c of
                       None \<Rightarrow> Inr True
                     | Some _ \<Rightarrow>
                         (case value_columns cat of
                            None \<Rightarrow> Inr True
                          | Some _ \<Rightarrow> Inr False)))))"

text \<open>One pass of the loop body: the data point pushed for index \<open>i\<close>.\<close>

definition dataPointAt ::
  "'id IVisualHost \<Rightarrow> DataViewCategoryColumn \<Rightarrow> DataViewValueColumn \<Rightarrow> nat \<Rightarrow>
   'id BarchartDataPoint" where
  "dataPointAt host cat dataValue i =
     \<lparr>dp_value = at_index (column_values dataValue) i,
      category = at_index (category_values cat) i,
      color = getColor host (at_index (category_values cat) i),
      selectionID = createSelectionId host cat i\<rparr>"

text \<open>The loop \<^verbatim>\<open>for(let i = 0; i < len; i++) dataPoints.push(...)\<close>, by recursion on
  \<open>len\<close>: the points of the indices below \<open>len\<close>, in the order they are pushed.\<close>

primrec pushDataPoints ::
  "'id IVisualHost \<Rightarrow> DataViewCategoryColumn \<Rightarrow> DataViewValueColumn \<Rightarrow> nat \<Rightarrow>
   'id BarchartDataPoint list" where
  "pushDataPoints host cat dataValue 0 = []"
| "pushDataPoints host cat dataValue (Suc n) =
     pushDataPoints host cat dataValue n @ [dataPointAt host cat dataValue n]"

text \<open>The body after the early return. Each read of a property of \<^verbatim>\<open>undefined\<close>
  throws; in particular \<^verbatim>\<open>categorical.values[0]\<close> is \<^verbatim>\<open>undefined\<close> for an empty
  array of value columns, and the loop header then reads \<^verbatim>\<open>dataValue.values\<close>.\<close>

definition transformRows ::
  "VisualUpdateOptions \<Rightarrow> 'id IVisualHost \<Rightarrow> error + 'id BarchartViewModel" where
  "transformRows options host =
     (case dataViews options of
        Some (dv # _) \<Rightarrow>
          (case categorical dv of
             Some cat \<Rightarrow>
               (case categories cat of
                  Some (c # _) \<Rightarrow>
                    (case value_columns cat of
                       Some (dataValue # _) \<Rightarrow>
                         Inr \<lparr>dataPoints =
                                pushDataPoints host c dataValue
                                  (max (length (category_values c))
                                       (length (column_values dataValue))),
                              dataMax = maxLocal dataValue,
                              settings =
                                \<lparr>enableAxis =
                                   \<lparr>showAxis =
                                      getOptionValue (objects (metadata dv))
                                        ''enableAxis'' ''show''
                                        (showAxis (enableAxis defaultSettings))\<rparr>\<rparr>\<rparr>
                     | _ \<Rightarrow> Inl TypeError)
                | _ \<Rightarrow> Inl TypeError)
           | None \<Rightarrow> Inl TypeError)
      | _ \<Rightarrow> Inl TypeError)"

definition visualTransform ::
  "VisualUpdateOptions \<Rightarrow> 'id IVisualHost \<Rightarrow> error + 'id BarchartViewModel" where
  "visualTransform options host =
     (case guard options of
        Inl e \<Rightarrow> Inl e
      | Inr True \<Rightarrow> Inr dataInfo
      | Inr False \<Rightarrow> transformRows options host)"

section \<open>The drawing library\<close>

text \<open>
  The visual draws through the selection, scale and axis interfaces of a drawing library
  (version 3 of D3), which is not part of the repository. A scale is kept as the
  configuration the source builds it with; what the library computes from a scale is a
  parameter of the model (\<open>D3\<close>), so that every theorem holds for whatever the library
  computes.
\<close>

text \<open>\<^verbatim>\<open>d3.scale.linear().domain([d0, d1]).range([r0, r1])\<close>\<close>

record LinearScale =
  lin_domain :: "PrimitiveValue \<times> PrimitiveValue"
  lin_range :: "number \<times> number"

text \<open>\<^verbatim>\<open>d3.scale.ordinal().domain(xs).rangeRoundBands([r0, r1], padding, outerPadding)\<close>\<close>

record OrdinalScale =
  ord_domain :: "PrimitiveValue list"
  bands_range :: "number \<times> number"
  padding :: number
  outerPadding :: number

text \<open>\<^verbatim>\<open>d3.svg.axis().scale(s).orient(o)\<close>\<close>

record Axis =
  axis_scale :: OrdinalScale
  orient :: string

record D3 =
  linear :: "LinearScale \<Rightarrow> PrimitiveValue \<Rightarrow> number"
  ordinal :: "OrdinalScale \<Rightarrow> PrimitiveValue \<Rightarrow> number"
  rangeBand :: "OrdinalScale \<Rightarrow> number"

section \<open>The state of the visual\<close>

text \<open>
  A bar is a \<^verbatim>\<open>rect\<close> element of class \<^verbatim>\<open>bar\<close> inside the bar container: its
  identity (\<open>node\<close>), the datum the library has bound to it, its attributes (\<open>None\<close>: the
  attribute has never been set) and its click listener. The listener of the source is a
  closure over the selection \<^verbatim>\<open>bars\<close> of the call that installed it; it is kept as the
  nodes of that selection.
\<close>

record 'id Bar =
  node :: nat
  datum :: "'id BarchartDataPoint"
  attr_width :: "number option"
  attr_height :: "number option"
  attr_x :: "number option"
  attr_y :: "number option"
  attr_fill :: "string option"
  fill_opacity :: "number option"
  on_click :: "nat list option"

text \<open>
  The fields of the class \<^verbatim>\<open>Visual\<close> and what hangs below its three elements: the
  attributes of the \<^verbatim>\<open>svg\<close> element, the style, the transform
  (\<^verbatim>\<open>translate(x, y)\<close>) and the axis last rendered into the group \<^verbatim>\<open>xAxis\<close>, and
  the bars of the bar container in document order. \<open>next_node\<close> numbers the elements
  created so far. Elements that have been removed from the document are not kept.
\<close>

record 'id Visual =
  host :: "'id IVisualHost"
  chartSettings :: "BarchartSettings option"
  svg_width :: "number option"
  svg_height :: "number option"
  xAxis_font_size :: "number option"
  xAxis_transform :: "(number \<times> number) option"
  xAxis_axis :: "Axis option"
  barContainer :: "'id Bar list"
  next_node :: nat

definition construct :: "'id IVisualHost \<Rightarrow> 'id Visual" where
  "construct h =
     \<lparr>host = h, chartSettings = None, svg_width = None, svg_height = None,
      xAxis_font_size = None, xAxis_transform = None, xAxis_axis = None,
      barContainer = [], next_node = 0\<rparr>"

section \<open>update\<close>

text \<open>\<^verbatim>\<open>if(this.chartSettings.enableAxis.show) { height = height - 25; }\<close>\<close>

definition effectiveHeight :: "BarchartSettings \<Rightarrow> number \<Rightarrow> number" where
  "effectiveHeight st h = (if showAxis (enableAxis st) then h - 25 else h)"

definition yScale :: "'id BarchartViewModel \<Rightarrow> number \<Rightarrow> LinearScale" where
  "yScale transformedData h =
     \<lparr>lin_domain = (PNum 0, dataMax transformedData), lin_range = (h, 0)\<rparr>"

definition xScale :: "'id BarchartViewModel \<Rightarrow> number \<Rightarrow> OrdinalScale" where
  "xScale transformedData w =
     \<lparr>ord_domain = map category (dataPoints transformedData),
      bands_range = (0, w), padding = 1 / 10, outerPadding = 2 / 10\<rparr>"

text \<open>
  \<^verbatim>\<open>selectAll('.bar').data(dataPoints)\<close> joins the bars with the data points by
  position. The update selection holds the bars that have a data point at their position,
  each with that data point bound as its datum.
\<close>

definition joinUpdate :: "'id Bar list \<Rightarrow> 'id BarchartDataPoint list \<Rightarrow> 'id Bar list" where
  "joinUpdate old dps = map (\<lambda>(b, d). b\<lparr>datum := d\<rparr>) (zip old dps)"

text \<open>\<^verbatim>\<open>bars.enter().append('rect').classed('bar', true)\<close>: one new element for each
  data point past the last bar, appended to the container and merged into the selection
  \<^verbatim>\<open>bars\<close> at its position.\<close>

definition newBar :: "nat \<Rightarrow> 'id BarchartDataPoint \<Rightarrow> 'id Bar" where
  "newBar n d =
     \<lparr>node = n, datum = d, attr_width = None, attr_height = None, attr_x = None,
      attr_y = None, attr_fill = None, fill_opacity = None, on_click = None\<rparr>"

primrec appendBars :: "nat \<Rightarrow> 'id BarchartDataPoint list \<Rightarrow> 'id Bar list" where
  "appendBars n [] = []"
| "appendBars n (d # ds) = newBar n d # appendBars (Suc n) ds"

definition joinEnter ::
  "nat \<Rightarrow> 'id Bar list \<Rightarrow> 'id BarchartDataPoint list \<Rightarrow> 'id Bar list" where
  "joinEnter n old dps = appendBars n (drop (length old) dps)"

text \<open>\<^verbatim>\<open>bars.exit()\<close>: the bars past the last data point.\<close>

definition joinExit :: "'id Bar list \<Rightarrow> 'id BarchartDataPoint list \<Rightarrow> 'id Bar list" where
  "joinExit old dps = drop (length dps) old"

text \<open>\<^verbatim>\<open>bars.attr({width: ..., height: ..., x: ..., y: ..., fill: ...})\<close> on one bar,
  with the bar's datum as the argument of the attribute functions.\<close>

definition setAttrs ::
  "D3 \<Rightarrow> LinearScale \<Rightarrow> OrdinalScale \<Rightarrow> number \<Rightarrow> 'id Bar \<Rightarrow> 'id Bar" where
  "setAttrs d3 ys xs h b =
     b\<lparr>attr_width := Some (rangeBand d3 xs),
       attr_height := Some (h - linear d3 ys (dp_value (datum b))),
       attr_x := Some (ordinal d3 xs (category (datum b))),
       attr_y := Some (linear d3 ys (dp_value (datum b))),
       attr_fill := Some (color (datum b))\<rparr>"

text \<open>\<^verbatim>\<open>bars.on('click', ...)\<close>: every bar of the selection gets the listener that
  closes over the selection.\<close>

definition onClick :: "'id Bar list \<Rightarrow> 'id Bar list" where
  "onClick bars = map (\<lambda>b. b\<lparr>on_click := Some (map node bars)\<rparr>) bars"

text \<open>
  The body of \<^verbatim>\<open>update\<close> after the call of \<^verbatim>\<open>visualTransform\<close>, statement by
  statement. \<^verbatim>\<open>bars.exit().remove()\<close> detaches the bars of the exit selection, so the
  container is left with the bars of the selection \<^verbatim>\<open>bars\<close>.
\<close>

definition render ::
  "D3 \<Rightarrow> 'id BarchartViewModel \<Rightarrow> Viewport \<Rightarrow> 'id Visual \<Rightarrow> 'id Visual" where
  "render d3 transformedData vp s =
     (let w = width vp;
          h = effectiveHeight (settings transformedData) (height vp);
          ys = yScale transformedData h;
          xs = xScale transformedData w;
          old = barContainer s;
          dps = dataPoints transformedData;
          entered = joinEnter (next_node s) old dps;
          bars = onClick (map (setAttrs d3 ys xs h) (joinUpdate old dps @ entered))
      in s\<lparr>chartSettings := Some (settings transformedData),
           svg_width := Some w,
           svg_height := Some (height vp),
           xAxis_font_size := Some (min h w * (4 / 100)),
           xAxis_transform := Some (0, h),
           xAxis_axis := Some \<lparr>axis_scale = xs, orient = ''bottom''\<rparr>,
           barContainer := bars,
           next_node := next_node s + length entered\<rparr>)"

definition update :: "D3 \<Rightarrow> VisualUpdateOptions \<Rightarrow> 'id Visual \<Rightarrow> error + 'id Visual" where
  "update d3 options s =
     (case visualTransform options (host s) of
        Inl e \<Rightarrow> Inl e
      | Inr transformedData \<Rightarrow> Inr (render d3 transformedData (viewport options) s))"

section \<open>A click on a bar\<close>

text \<open>
  The listener calls \<^verbatim>\<open>selectionManager.select(dataPoint.selectionID)\<close> with the datum
  of the clicked bar and registers a continuation on the promise. The pending call is
  kept as the identity asked for, together with what the continuation closes over: the
  selection \<^verbatim>\<open>bars\<close> and the clicked element (\<^verbatim>\<open>this\<close>).
\<close>

record 'id SelectRequest =
  requested :: 'id
  captured :: "nat list"
  clicked :: nat

definition click :: "'id Visual \<Rightarrow> nat \<Rightarrow> 'id SelectRequest option" where
  "click s n =
     (case find (\<lambda>b. node b = n) (barContainer s) of
        None \<Rightarrow> None
      | Some b \<Rightarrow>
          (case on_click b of
             None \<Rightarrow> None
           | Some bars \<Rightarrow>
               Some \<lparr>requested = selectionID (datum b), captured = bars, clicked = n\<rparr>))"

text \<open>\<^verbatim>\<open>bars.attr({'fill-opacity': ids.length > 0 ? .5 : 1})\<close>\<close>

definition dimBars :: "nat list \<Rightarrow> 'id list \<Rightarrow> 'id Bar list \<Rightarrow> 'id Bar list" where
  "dimBars sel ids bars =
     map (\<lambda>b. if node b \<in> set sel
               then b\<lparr>fill_opacity := Some (if length ids > 0 then 1 / 2 else 1)\<rparr>
               else b) bars"

text \<open>\<^verbatim>\<open>d3.select(this).attr({'fill-opacity': 1})\<close>\<close>

definition highlight :: "nat \<Rightarrow> 'id Bar list \<Rightarrow> 'id Bar list" where
  "highlight n bars =
     map (\<lambda>b. if node b = n then b\<lparr>fill_opacity := Some 1\<rparr> else b) bars"

text \<open>The continuation, run when the promise resolves with the selected identities.\<close>

definition onSelected :: "'id SelectRequest \<Rightarrow> 'id list \<Rightarrow> 'id Visual \<Rightarrow> 'id Visual" where
  "onSelected req ids s =
     s\<lparr>barContainer := highlight (clicked req) (dimBars (captured req) ids (barContainer s))\<rparr>"

text \<open>The elements of the document have distinct identities, all handed out already.\<close>

definition wf_visual :: "'id Visual \<Rightarrow> bool" where
  "wf_visual s \<longleftrightarrow>
     distinct (map node (barContainer s)) \<and>
     (\<forall>b \<in> set (barContainer s). node b < next_node s)"

text \<open>Every bar carries the listener installed by the last call of \<^verbatim>\<open>update\<close>, the
  one that closes over all the bars of the container.\<close>

definition listening :: "'id Visual \<Rightarrow> bool" where
  "listening s \<longleftrightarrow>
     (\<forall>b \<in> set (barContainer s). on_click b = Some (map node (barContainer s)))"

section \<open>Notions used to state the properties\<close>

text \<open>\<^verbatim>\<open>dataViews[0].categorical.categories[0]\<close> and
  \<^verbatim>\<open>dataViews[0].categorical.values[0]\<close>, where they are defined.\<close>

definition firstCategoryColumn :: "VisualUpdateOptions \<Rightarrow> DataViewCategoryColumn option" where
  "firstCategoryColumn options =
     (case dataViews options of
        Some (dv # _) \<Rightarrow>
          (case categorical dv of
             Some cat \<Rightarrow> (case categories cat of Some (c # _) \<Rightarrow> Some c | _ \<Rightarrow> None)
           | None \<Rightarrow> None)
      | _ \<Rightarrow> None)"

definition firstValueColumn :: "VisualUpdateOptions \<Rightarrow> DataViewValueColumn option" where
  "firstValueColumn options =
     (case dataViews options of
        Some (dv # _) \<Rightarrow>
          (case categorical dv of
             Some cat \<Rightarrow> (case value_columns cat of Some (v # _) \<Rightarrow> Some v | _ \<Rightarrow> None)
           | None \<Rightarrow> None)
      | _ \<Rightarrow> None)"

text \<open>The objects with one property taken out of one object.\<close>

definition removeProperty ::
  "'a DataViewObjects \<Rightarrow> string \<Rightarrow> string \<Rightarrow> 'a DataViewObjects" where
  "removeProperty os objectName propertyName =
     (case os objectName of
        None \<Rightarrow> os
      | Some object \<Rightarrow> os(objectName \<mapsto> object(propertyName := None)))"

section \<open>Sample inputs\<close>

text \<open>
  The inputs the model is run on below: a host whose palette knows two colours and whose
  selection identities are the row numbers, the table of four countries, and an instance
  of the library parameters (a linear interpolation and bands of equal width, without
  the rounding of the library). The theorems do not depend on them.
\<close>

definition sample_host :: "nat IVisualHost" where
  "sample_host =
     \<lparr>getColor = (\<lambda>c. if c = PStr ''China'' then ''#01B8AA'' else ''#374649''),
      createSelectionId = (\<lambda>c i. i)\<rparr>"

primrec position :: "PrimitiveValue list \<Rightarrow> PrimitiveValue \<Rightarrow> nat" where
  "position [] c = 0"
| "position (x # xs) c = (if x = c then 0 else Suc (position xs c))"

definition sample_d3 :: D3 where
  "sample_d3 =
     \<lparr>linear = (\<lambda>sc v. case (snd (lin_domain sc), v) of
                   (PNum m, PNum x) \<Rightarrow>
                     fst (lin_range sc) + (snd (lin_range sc) - fst (lin_range sc)) * (x / m)
                 | _ \<Rightarrow> 0),
      ordinal = (\<lambda>sc c. fst (bands_range sc) +
                   (snd (bands_range sc) - fst (bands_range sc)) *
                   of_nat (position (ord_domain sc) c) / of_nat (length (ord_domain sc))),
      rangeBand = (\<lambda>sc. (snd (bands_range sc) - fst (bands_range sc)) * (1 - padding sc) /
                   of_nat (length (ord_domain sc)))\<rparr>"

definition countries :: DataViewCategoryColumn where
  "countries =
     \<lparr>source = Some \<lparr>displayName = ''Country''\<rparr>,
      category_values = [PStr ''China'', PStr ''USA'', PStr ''India'', PStr ''Germany'']\<rparr>"

definition three_countries :: DataViewCategoryColumn where
  "three_countries =
     \<lparr>source = Some \<lparr>displayName = ''Country''\<rparr>,
      category_values = [PStr ''China'', PStr ''USA'', PStr ''India'']\<rparr>"

definition sales :: DataViewValueColumn where
  "sales = \<lparr>column_values = [PNum 10, PNum 8, PNum 11, PNum 5], maxLocal = PNum 11\<rparr>"

text \<open>A column whose reported maximum is above all of its values.\<close>

definition stale_sales :: DataViewValueColumn where
  "stale_sales = \<lparr>column_values = [PNum 10, PNum 8, PNum 9, PNum 5], maxLocal = PNum 11\<rparr>"

definition five_sales :: DataViewValueColumn where
  "five_sales =
     \<lparr>column_values = [PNum 10, PNum 8, PNum 11, PNum 5, PNum 7], maxLocal = PNum 11\<rparr>"

definition table_of ::
  "DataViewCategoryColumn list option \<Rightarrow> DataViewValueColumn list option \<Rightarrow>
   bool DataViewObjects option \<Rightarrow> VisualUpdateOptions" where
  "table_of cs vs os =
     \<lparr>dataViews =
        Some [\<lparr>metadata = \<lparr>objects = os\<rparr>,
               categorical = Some \<lparr>categories = cs, value_columns = vs\<rparr>\<rparr>],
      viewport = \<lparr>width = 400, height = 300\<rparr>\<rparr>"

text \<open>The view model of the four countries, with the axis switched on or off.\<close>

definition chart_model :: "bool \<Rightarrow> nat BarchartViewModel" where
  "chart_model sh =
     \<lparr>dataPoints =
        [\<lparr>dp_value = PNum 10, category = PStr ''China'', color = ''#01B8AA'', selectionID = 0\<rparr>,
         \<lparr>dp_value = PNum 8, category = PStr ''USA'', color = ''#374649'', selectionID = 1\<rparr>,
         \<lparr>dp_value = PNum 11, category = PStr ''India'', color = ''#374649'', selectionID = 2\<rparr>,
         \<lparr>dp_value = PNum 5, category = PStr ''Germany'', color = ''#374649'', selectionID = 3\<rparr>],
      dataMax = PNum 11,
      settings = \<lparr>enableAxis = \<lparr>showAxis = sh\<rparr>\<rparr>\<rparr>"

definition surface :: Viewport where
  "surface = \<lparr>width = 400, height = 300\<rparr>"

text \<open>A later view model with two data points.\<close>

definition short_model :: "nat BarchartViewModel" where
  "short_model =
     \<lparr>dataPoints =
        [\<lparr>dp_value = PNum 7, category = PStr ''China'', color = ''#01B8AA'', selectionID = 0\<rparr>,
         \<lparr>dp_value = PNum 3, category = PStr ''USA'', color = ''#374649'', selectionID = 1\<rparr>],
      dataMax = PNum 7,
      settings = \<lparr>enableAxis = \<lparr>showAxis = True\<rparr>\<rparr>\<rparr>"

text \<open>A later view model with a fifth data point.\<close>

definition five_model :: "nat BarchartViewModel" where
  "five_model =
     \<lparr>dataPoints =
        [\<lparr>dp_value = PNum 10, category = PStr ''China'', color = ''#01B8AA'', selectionID = 0\<rparr>,
         \<lparr>dp_value = PNum 8, category = PStr ''USA'', color = ''#374649'', selectionID = 1\<rparr>,
         \<lparr>dp_value = PNum 11, category = PStr ''India'', color = ''#374649'', selectionID = 2\<rparr>,
         \<lparr>dp_value = PNum 5, category = PStr ''Germany'', color = ''#374649'', selectionID = 3\<rparr>,
         \<lparr>dp_value = PNum 7, category = PStr ''Brazil'', color = ''#374649'', selectionID = 4\<rparr>],
      dataMax = PNum 11,
      settings = \<lparr>enableAxis = \<lparr>showAxis = False\<rparr>\<rparr>\<rparr>"

text \<open>The chart after the first drawing of the four countries.\<close>

definition drawn :: "nat Visual" where
  "drawn = render sample_d3 (chart_model False) surface (construct sample_host)"

section \<open>Properties of visualTransform\<close>

lemma length_pushDataPoints: "length (pushDataPoints h c v n) = n"
  by (induction n) simp_all

lemma nth_pushDataPoints: "i < n \<Longrightarrow> pushDataPoints h c v n ! i = dataPointAt h c v i"
  by (induction n) (auto simp: nth_append length_pushDataPoints less_Suc_eq)

lemma transformRows_present:
  assumes "firstCategoryColumn options = Some c" and "firstValueColumn options = Some v"
  shows "\<exists>st. transformRows options h =
     Inr \<lparr>dataPoints =
            pushDataPoints h c v (max (length (category_values c)) (length (column_values v))),
          dataMax = maxLocal v, settings = st\<rparr>"
  using assms unfolding firstCategoryColumn_def firstValueColumn_def transformRows_def
  by (auto split: option.splits list.splits)

lemma guard_False_category:
  "guard options = Inr False \<Longrightarrow>
     \<exists>c. firstCategoryColumn options = Some c \<and> source c \<noteq> None"
  unfolding guard_def firstCategoryColumn_def
  by (auto split: option.splits list.splits)

text \<open>Where the condition of the early return holds, the result is the empty view
  model: no data points, maximum 0, axis off.\<close>

lemma visualTransform_early_return:
  "guard options = Inr True \<Longrightarrow>
     visualTransform options h =
       Inr \<lparr>dataPoints = [], dataMax = PNum 0,
            settings = \<lparr>enableAxis = \<lparr>showAxis = False\<rparr>\<rparr>\<rparr>"
  by (simp add: visualTransform_def dataInfo_def defaultSettings_def)

text \<open>The condition holds for the absent pieces it tests, as long as the array of category
  columns, where there is one, is not empty.\<close>

lemma guard_True_iff:
  "guard options = Inr True \<longleftrightarrow>
     dataViews options = None \<or> dataViews options = Some [] \<or>
     (\<exists>dv dvs. dataViews options = Some (dv # dvs) \<and>
        (categorical dv = None \<or>
         (\<exists>cat. categorical dv = Some cat \<and>
            (categories cat = None \<or>
             (\<exists>c cs. categories cat = Some (c # cs) \<and>
                (source c = None \<or> value_columns cat = None))))))"
  unfolding guard_def
  by (auto split: option.splits list.splits)

text \<open>
  Claim C1: for every input where the data table is absent, or has no primary view, no
  categorical section, no category column, no source descriptor on the category column,
  or no value column, \<open>visualTransform\<close> returns the empty view model and raises no
  error. The code does not do that at two tables. Where the array of category columns is
  there but empty, the condition of the early return reads the source descriptor of
  \<^verbatim>\<open>categories[0]\<close>, which is \<^verbatim>\<open>undefined\<close>, and throws. Where the array of value
  columns is there but empty, the condition lets the table through, and the header of the
  loop reads \<^verbatim>\<open>dataValue.values\<close> of the \<^verbatim>\<open>undefined\<close> first value column and throws.
\<close>

theorem visualTransform_empty_arrays_throw:
  "visualTransform (table_of (Some []) None None) h = Inl TypeError \<and>
   visualTransform (table_of (Some [countries]) (Some []) None) h = Inl TypeError"
  by (simp add: visualTransform_def guard_def transformRows_def table_of_def countries_def)

text \<open>A table passes the condition of the early return and has a first value column
  exactly if every structural piece is there: the table, its primary view, the
  categorical section, the category column with its source descriptor, and the value
  column.\<close>

lemma well_formed_iff:
  "guard options = Inr False \<and> firstValueColumn options = Some v \<longleftrightarrow>
     (\<exists>dv dvs cat c cs d vs.
        dataViews options = Some (dv # dvs) \<and> categorical dv = Some cat \<and>
        categories cat = Some (c # cs) \<and> source c = Some d \<and>
        value_columns cat = Some (v # vs))"
  unfolding guard_def firstValueColumn_def
  by (auto split: option.splits list.splits)

text \<open>
  Claim C3: for every table that passes the structural validation, that is, a table with
  every structural piece there (the condition of the early return is false and there is
  a value column), the array of data points built by \<open>visualTransform\<close> has the length of
  the longer of the category column's values and the value column's values; the data
  point at an index holds the category and the value at that index, and \<^verbatim>\<open>undefined\<close>,
  not an error, for a column that ends before the index.
\<close>

theorem visualTransform_length:
  assumes "guard options = Inr False" and "firstValueColumn options = Some v"
  shows "\<exists>c vm. firstCategoryColumn options = Some c \<and>
     visualTransform options h = Inr vm \<and>
     length (dataPoints vm) = max (length (category_values c)) (length (column_values v)) \<and>
     (\<forall>i < length (dataPoints vm).
        category (dataPoints vm ! i) =
          (if i < length (category_values c) then category_values c ! i else PUndefined) \<and>
        dp_value (dataPoints vm ! i) =
          (if i < length (column_values v) then column_values v ! i else PUndefined))"
proof -
  from assms(1) obtain c where c: "firstCategoryColumn options = Some c"
    using guard_False_category by blast
  from transformRows_present [OF c assms(2), of h] obtain st where
    "transformRows options h =
       Inr \<lparr>dataPoints =
              pushDataPoints h c v (max (length (category_values c)) (length (column_values v))),
            dataMax = maxLocal v, settings = st\<rparr>"
    by blast
  with assms(1) c show ?thesis
    by (simp add: visualTransform_def length_pushDataPoints nth_pushDataPoints
        dataPointAt_def at_index_def)
qed

text \<open>Three categories and five values give five data points; the last one has no
  category.\<close>

theorem visualTransform_length_witness:
  "guard (table_of (Some [three_countries]) (Some [five_sales]) None) = Inr False \<and>
   firstValueColumn (table_of (Some [three_countries]) (Some [five_sales]) None) =
     Some five_sales \<and>
   (\<exists>vm. visualTransform (table_of (Some [three_countries]) (Some [five_sales]) None)
           sample_host = Inr vm \<and>
         length (dataPoints vm) = 5 \<and>
         category (dataPoints vm ! 4) = PUndefined \<and>
         dp_value (dataPoints vm ! 4) = PNum 7)"
proof -
  let ?t = "table_of (Some [three_countries]) (Some [five_sales]) None"
  have g: "guard ?t = Inr False"
    by (simp add: guard_def table_of_def three_countries_def)
  have f: "firstValueColumn ?t = Some five_sales"
    by (simp add: firstValueColumn_def table_of_def)
  have fc: "firstCategoryColumn ?t = Some three_countries"
    by (simp add: firstCategoryColumn_def table_of_def)
  from visualTransform_length [OF g f, of sample_host] fc obtain vm where
    vm: "visualTransform ?t sample_host = Inr vm"
    and len: "length (dataPoints vm) =
                max (length (category_values three_countries)) (length (column_values five_sales))"
    and pts: "\<forall>i < length (dataPoints vm).
        category (dataPoints vm ! i) =
          (if i < length (category_values three_countries)
           then category_values three_countries ! i else PUndefined) \<and>
        dp_value (dataPoints vm ! i) =
          (if i < length (column_values five_sales)
           then column_values five_sales ! i else PUndefined)"
    by auto
  from len have len5: "length (dataPoints vm) = 5"
    by (simp add: three_countries_def five_sales_def)
  with pts have "category (dataPoints vm ! 4) = PUndefined \<and> dp_value (dataPoints vm ! 4) = PNum 7"
    by (simp add: three_countries_def five_sales_def)
  with g f vm len5 show ?thesis by blast
qed

text \<open>
  Claim C4: for every table that passes the structural validation, that is, a table with
  every structural piece there (the condition of the early return is false and there is
  a value column), the maximum of the view model is the \<^verbatim>\<open>maxLocal\<close> field of the
  value column as it is, whatever the values of the column are; it is not computed from
  the data points.
\<close>

theorem visualTransform_dataMax:
  assumes "guard options = Inr False" and "firstValueColumn options = Some v"
  shows "\<exists>vm. visualTransform options h = Inr vm \<and> dataMax vm = maxLocal v"
proof -
  from assms(1) obtain c where c: "firstCategoryColumn options = Some c"
    using guard_False_category by blast
  from transformRows_present [OF c assms(2), of h] assms(1) show ?thesis
    by (auto simp: visualTransform_def)
qed

text \<open>A reported maximum of 11 over the values 10, 8, 9 and 5 gives the maximum 11.\<close>

theorem visualTransform_dataMax_witness:
  "guard (table_of (Some [countries]) (Some [stale_sales]) None) = Inr False \<and>
   firstValueColumn (table_of (Some [countries]) (Some [stale_sales]) None) =
     Some stale_sales \<and>
   column_values stale_sales = [PNum 10, PNum 8, PNum 9, PNum 5] \<and>
   (\<exists>vm. visualTransform (table_of (Some [countries]) (Some [stale_sales]) None)
           sample_host = Inr vm \<and> dataMax vm = PNum 11)"
proof -
  have g: "guard (table_of (Some [countries]) (Some [stale_sales]) None) = Inr False"
    by (simp add: guard_def table_of_def countries_def)
  have f: "firstValueColumn (table_of (Some [countries]) (Some [stale_sales]) None) =
             Some stale_sales"
    by (simp add: firstValueColumn_def table_of_def)
  from visualTransform_dataMax [OF g f, of sample_host] g f show ?thesis
    by (simp add: stale_sales_def)
qed

section \<open>Properties of getOptionValue\<close>

text \<open>
  Claim C8, as stated: \<open>getOptionValue\<close> returns the stored property where the objects, the
  named object and the property are there and the property is not \<^verbatim>\<open>undefined\<close>. A
  property that is there and holds \<^verbatim>\<open>null\<close> is not \<^verbatim>\<open>undefined\<close>, and what comes
  back is the default, whichever it is.
\<close>

theorem getOptionValue_null_property:
  "readProperty [''show'' \<mapsto> Null] ''show'' \<noteq> Undefined \<and>
   getOptionValue (Some [''enableAxis'' \<mapsto> [''show'' \<mapsto> Null]]) ''enableAxis'' ''show'' True
     = True \<and>
   getOptionValue (Some [''enableAxis'' \<mapsto> [''show'' \<mapsto> Null]]) ''enableAxis'' ''show'' False
     = False"
  by (simp add: getOptionValue_def readProperty_def)

text \<open>
  Claim C8, amended: \<open>getOptionValue\<close> returns the stored property where the objects, the
  named object and the property are there and the property is neither \<^verbatim>\<open>undefined\<close> nor
  \<^verbatim>\<open>null\<close>, and the default in every other case: no objects, no object of that name, no
  such property, or a property that is \<^verbatim>\<open>undefined\<close> or \<^verbatim>\<open>null\<close>. It is a total
  function, so it raises nothing. Taking a property out of the objects does not change
  what any other pair of object name and property name resolves to.
\<close>

theorem getOptionValue_resolution:
  "(os objectName = Some object \<and> object propertyName = Some (Val v) \<longrightarrow>
      getOptionValue (Some os) objectName propertyName d = v) \<and>
   (os objectName = Some object \<and>
    (object propertyName = None \<or> object propertyName = Some Undefined \<or>
     object propertyName = Some Null) \<longrightarrow>
      getOptionValue (Some os) objectName propertyName d = d) \<and>
   (os objectName = None \<longrightarrow> getOptionValue (Some os) objectName propertyName d = d) \<and>
   getOptionValue None objectName propertyName d = d \<and>
   ((objectName', propertyName') \<noteq> (objectName, propertyName) \<longrightarrow>
      getOptionValue (Some (removeProperty os objectName' propertyName')) objectName
        propertyName d =
      getOptionValue (Some os) objectName propertyName d)"
  by (auto simp: getOptionValue_def readProperty_def removeProperty_def
      split: option.splits js.splits)

theorem getOptionValue_resolution_witness:
  "getOptionValue (Some [''enableAxis'' \<mapsto> [''show'' \<mapsto> Val True]]) ''enableAxis'' ''show''
     False = True \<and>
   getOptionValue (Some [''enableAxis'' \<mapsto> [''show'' \<mapsto> Undefined]]) ''enableAxis'' ''show''
     False = False \<and>
   getOptionValue (Some [''legend'' \<mapsto> [''show'' \<mapsto> Val True]]) ''enableAxis'' ''show''
     False = False \<and>
   getOptionValue
     (Some (removeProperty
        [''enableAxis'' \<mapsto> [''show'' \<mapsto> Val True, ''fill'' \<mapsto> Val False]]
        ''enableAxis'' ''fill''))
     ''enableAxis'' ''show'' False = True"
proof -
  let ?os = "[''enableAxis'' \<mapsto> [''show'' \<mapsto> Val True, ''fill'' \<mapsto> Val False]]"
  have "getOptionValue (Some [''enableAxis'' \<mapsto> [''show'' \<mapsto> Val True]]) ''enableAxis''
          ''show'' False = True"
    using getOptionValue_resolution
      [of "[''enableAxis'' \<mapsto> [''show'' \<mapsto> Val True]]" "''enableAxis''"
          "[''show'' \<mapsto> Val True]" "''show''" True False]
    by simp
  moreover have "getOptionValue (Some [''enableAxis'' \<mapsto> [''show'' \<mapsto> Undefined]])
          ''enableAxis'' ''show'' False = False"
    using getOptionValue_resolution
      [of "[''enableAxis'' \<mapsto> [''show'' \<mapsto> Undefined]]" "''enableAxis''"
          "[''show'' \<mapsto> Undefined]" "''show''" True False]
    by simp
  moreover have "getOptionValue (Some [''legend'' \<mapsto> [''show'' \<mapsto> Val True]]) ''enableAxis''
          ''show'' False = False"
    using getOptionValue_resolution
      [of "[''legend'' \<mapsto> [''show'' \<mapsto> Val True]]" "''enableAxis''"
          "[''show'' \<mapsto> Val True]" "''show''" True False]
    by simp
  moreover have "getOptionValue (Some (removeProperty ?os ''enableAxis'' ''fill''))
          ''enableAxis'' ''show'' False = True"
    using getOptionValue_resolution
      [of ?os "''enableAxis''" "[''show'' \<mapsto> Val True, ''fill'' \<mapsto> Val False]" "''show''"
          True False "''enableAxis''" "''fill''"]
    by simp
  ultimately show ?thesis by blast
qed

text \<open>
  Claim C10: the comparison of the property with \<^verbatim>\<open>undefined\<close> is the loose one, so a
  property that is there and holds \<^verbatim>\<open>null\<close> resolves as an absent property does: to the
  default, not to \<^verbatim>\<open>null\<close>. A property that is neither \<^verbatim>\<open>null\<close> nor
  \<^verbatim>\<open>undefined\<close> is returned as it is.
\<close>

theorem getOptionValue_null_is_absent:
  assumes "os objectName = Some object"
  shows "(object propertyName = Some Null \<longrightarrow>
            getOptionValue (Some os) objectName propertyName d = d \<and>
            getOptionValue (Some os) objectName propertyName d =
              getOptionValue (Some (removeProperty os objectName propertyName)) objectName
                propertyName d) \<and>
         (\<forall>v. object propertyName = Some (Val v) \<longrightarrow>
            getOptionValue (Some os) objectName propertyName d = v)"
  using assms by (simp add: getOptionValue_def readProperty_def removeProperty_def)

theorem getOptionValue_null_is_absent_witness:
  "getOptionValue (Some [''enableAxis'' \<mapsto> [''show'' \<mapsto> Null]]) ''enableAxis'' ''show'' True
     = True \<and>
   getOptionValue (Some [''enableAxis'' \<mapsto> [''show'' \<mapsto> Null]]) ''enableAxis'' ''show'' True
     = getOptionValue (Some [''enableAxis'' \<mapsto> Map.empty]) ''enableAxis'' ''show'' True \<and>
   getOptionValue (Some [''enableAxis'' \<mapsto> [''show'' \<mapsto> Val False]]) ''enableAxis'' ''show''
     True = False"
proof -
  let ?n = "[''enableAxis'' \<mapsto> [''show'' \<mapsto> (Null :: bool js)]]"
  let ?f = "[''enableAxis'' \<mapsto> [''show'' \<mapsto> Val False]]"
  have a: "?n ''enableAxis'' = Some [''show'' \<mapsto> Null]"
    by simp
  have a': "[''show'' \<mapsto> (Null :: bool js)] ''show'' = Some Null"
    by simp
  have b: "?f ''enableAxis'' = Some [''show'' \<mapsto> Val False]"
    by simp
  have b': "[''show'' \<mapsto> Val False] ''show'' = Some (Val False)"
    by simp
  have r: "removeProperty ?n ''enableAxis'' ''show'' = [''enableAxis'' \<mapsto> Map.empty]"
    by (simp add: removeProperty_def)
  note n = getOptionValue_null_is_absent
             [of ?n "''enableAxis''" "[''show'' \<mapsto> Null]" "''show''" True, OF a]
  note f = getOptionValue_null_is_absent
             [of ?f "''enableAxis''" "[''show'' \<mapsto> Val False]" "''show''" True, OF b]
  from n a' have
    "getOptionValue (Some ?n) ''enableAxis'' ''show'' True = True \<and>
     getOptionValue (Some ?n) ''enableAxis'' ''show'' True =
       getOptionValue (Some (removeProperty ?n ''enableAxis'' ''show'')) ''enableAxis''
         ''show'' True"
    by blast
  moreover from f b' have "getOptionValue (Some ?f) ''enableAxis'' ''show'' True = False"
    by blast
  ultimately show ?thesis
    by (simp only: r) blast
qed

section \<open>Properties of update\<close>

text \<open>
  A call of \<open>update\<close> that gets a view model from \<open>visualTransform\<close> is \<open>render\<close> on
  that view model and the viewport of the call (\<open>update_render\<close>, \<open>update_cases\<close>
  below). The properties of drawing are stated for \<open>render\<close>, for every view model,
  viewport and state of the visual.
\<close>

subsection \<open>The join of bars and data points\<close>

lemma length_joinUpdate: "length (joinUpdate old dps) = min (length old) (length dps)"
  by (simp add: joinUpdate_def)

lemma length_appendBars: "length (appendBars n ds) = length ds"
  by (induction ds arbitrary: n) simp_all

lemma nth_appendBars: "i < length ds \<Longrightarrow> appendBars n ds ! i = newBar (n + i) (ds ! i)"
  by (induction ds arbitrary: n i) (auto simp: nth_Cons split: nat.splits)

lemma length_joinEnter: "length (joinEnter n old dps) = length dps - length old"
  by (simp add: joinEnter_def length_appendBars)

lemma length_joined: "length (joinUpdate old dps @ joinEnter n old dps) = length dps"
  by (simp add: length_joinUpdate length_joinEnter)

lemma nth_joined:
  assumes "i < length dps"
  shows "(joinUpdate old dps @ joinEnter n old dps) ! i =
           (if i < length old then (old ! i)\<lparr>datum := dps ! i\<rparr>
            else newBar (n + (i - length old)) (dps ! i))"
proof (cases "i < length old")
  case True
  with assms show ?thesis
    by (simp add: nth_append length_joinUpdate joinUpdate_def)
next
  case False
  with assms show ?thesis
    by (simp add: nth_append length_joinUpdate joinEnter_def nth_appendBars min_def)
qed

lemma datum_joined:
  "i < length dps \<Longrightarrow> datum ((joinUpdate old dps @ joinEnter n old dps) ! i) = dps ! i"
  by (simp add: nth_joined newBar_def)

lemma map_datum_joined: "map datum (joinUpdate old dps @ joinEnter n old dps) = dps"
proof (rule nth_equalityI)
  show "length (map datum (joinUpdate old dps @ joinEnter n old dps)) = length dps"
    by (simp only: length_map length_joined)
next
  fix i
  assume "i < length (map datum (joinUpdate old dps @ joinEnter n old dps))"
  then have i: "i < length dps"
    by (simp only: length_map length_joined)
  then have "i < length (joinUpdate old dps @ joinEnter n old dps)"
    by (simp only: length_joined)
  then have "map datum (joinUpdate old dps @ joinEnter n old dps) ! i =
               datum ((joinUpdate old dps @ joinEnter n old dps) ! i)"
    by (rule nth_map)
  with i show "map datum (joinUpdate old dps @ joinEnter n old dps) ! i = dps ! i"
    by (simp only: datum_joined)
qed

lemma joinUpdate_same: "map datum bs = dps \<Longrightarrow> joinUpdate bs dps = bs"
  by (induction bs arbitrary: dps) (auto simp: joinUpdate_def)

lemma joinEnter_none: "length dps \<le> length old \<Longrightarrow> joinEnter n old dps = []"
  by (simp add: joinEnter_def)

lemma datum_setAttrs: "datum (setAttrs d3 ys xs h b) = datum b"
  by (simp add: setAttrs_def)

lemma datum_o_setAttrs: "datum \<circ> setAttrs d3 ys xs h = datum"
  by (rule ext) (simp add: datum_setAttrs)

lemma node_setAttrs: "node (setAttrs d3 ys xs h b) = node b"
  by (simp add: setAttrs_def)

lemma length_onClick: "length (onClick bs) = length bs"
  by (simp add: onClick_def)

lemma map_node_onClick: "map node (onClick bs) = map node bs"
  by (simp add: onClick_def)

lemma map_datum_onClick: "map datum (onClick bs) = map datum bs"
  by (simp add: onClick_def)

lemma onClick_idem: "onClick (onClick bs) = onClick bs"
  by (simp add: onClick_def)

lemma setAttrs_onClick:
  "map (setAttrs d3 ys xs h) (onClick (map (setAttrs d3 ys xs h) bs)) =
     onClick (map (setAttrs d3 ys xs h) bs)"
  by (simp add: onClick_def setAttrs_def)

lemma barContainer_render:
  "barContainer (render d3 vm vp s) =
     onClick (map (setAttrs d3 (yScale vm (effectiveHeight (settings vm) (height vp)))
                     (xScale vm (width vp)) (effectiveHeight (settings vm) (height vp)))
               (joinUpdate (barContainer s) (dataPoints vm) @
                joinEnter (next_node s) (barContainer s) (dataPoints vm)))"
  by (simp add: render_def Let_def)

lemma map_datum_render: "map datum (barContainer (render d3 vm vp s)) = dataPoints vm"
  by (simp add: barContainer_render map_datum_onClick datum_o_setAttrs map_datum_joined
      del: map_append)

lemma length_render: "length (barContainer (render d3 vm vp s)) = length (dataPoints vm)"
  using map_datum_render [of d3 vm vp s] by (metis length_map)

lemma render_twice: "render d3 vm vp (render d3 vm vp s) = render d3 vm vp s"
proof -
  let ?s = "render d3 vm vp s"
  let ?h = "effectiveHeight (settings vm) (height vp)"
  let ?A = "setAttrs d3 (yScale vm ?h) (xScale vm (width vp)) ?h"
  have ju: "joinUpdate (barContainer ?s) (dataPoints vm) = barContainer ?s"
    by (rule joinUpdate_same) (rule map_datum_render)
  have je: "joinEnter (next_node ?s) (barContainer ?s) (dataPoints vm) = []"
    by (rule joinEnter_none) (simp add: length_render)
  have "barContainer (render d3 vm vp ?s) = onClick (map ?A (barContainer ?s))"
    by (simp add: barContainer_render [of d3 vm vp ?s] ju je)
  also have "\<dots> = barContainer ?s"
    by (simp add: barContainer_render [of d3 vm vp s] setAttrs_onClick onClick_idem del: map_append)
  finally have bars: "barContainer (render d3 vm vp ?s) = barContainer ?s" .
  have "render d3 vm vp ?s = ?s\<lparr>barContainer := barContainer (render d3 vm vp ?s)\<rparr>"
    by (simp add: render_def [of d3 vm vp ?s] Let_def je) (simp add: render_def Let_def)
  with bars show ?thesis by simp
qed

lemma map_node_joinUpdate: "map node (joinUpdate old dps) = map node (take (length dps) old)"
proof (induction old arbitrary: dps)
  case Nil
  then show ?case by (simp add: joinUpdate_def)
next
  case (Cons b bs)
  then show ?case by (cases dps) (simp_all add: joinUpdate_def)
qed

lemma map_node_appendBars: "map node (appendBars n ds) = [n ..< n + length ds]"
proof (induction ds arbitrary: n)
  case Nil
  then show ?case by simp
next
  case (Cons d ds)
  have "[n ..< n + length (d # ds)] = n # [Suc n ..< Suc n + length ds]"
    using upt_rec [of n "Suc (n + length ds)"] by simp
  with Cons show ?case by (simp add: newBar_def)
qed

lemma o_node_setAttrs: "node \<circ> setAttrs d3 ys xs h = node"
  by (rule ext) (simp add: node_setAttrs)

lemma map_node_render:
  "map node (barContainer (render d3 vm vp s)) =
     map node (take (length (dataPoints vm)) (barContainer s)) @
     [next_node s ..< next_node s + (length (dataPoints vm) - length (barContainer s))]"
  by (simp add: barContainer_render map_node_onClick o_node_setAttrs map_node_joinUpdate
      joinEnter_def map_node_appendBars)

lemma next_node_render:
  "next_node (render d3 vm vp s) =
     next_node s + (length (dataPoints vm) - length (barContainer s))"
  by (simp add: render_def Let_def length_joinEnter)

lemma wf_visual_construct: "wf_visual (construct h)"
  by (simp add: wf_visual_def construct_def)

lemma wf_visual_render:
  assumes "wf_visual s"
  shows "wf_visual (render d3 vm vp s)"
proof -
  let ?m = "length (dataPoints vm)"
  let ?old = "barContainer s"
  from assms have d: "distinct (map node ?old)"
    and lt: "\<forall>b \<in> set ?old. node b < next_node s"
    by (simp_all add: wf_visual_def)
  from d have d': "distinct (map node (take ?m ?old))"
    by (simp add: take_map [symmetric] del: distinct_map)
  from lt have lt': "\<forall>k \<in> set (map node (take ?m ?old)). k < next_node s"
    by (auto dest: in_set_takeD)
  have "distinct (map node (barContainer (render d3 vm vp s)))"
    unfolding map_node_render using d' lt' by (auto simp del: distinct_map set_map)
  moreover have "\<forall>k \<in> set (map node (barContainer (render d3 vm vp s))).
                   k < next_node (render d3 vm vp s)"
    unfolding map_node_render next_node_render using lt' by (auto simp del: set_map)
  ultimately show ?thesis
    by (auto simp: wf_visual_def)
qed

lemma exit_removed:
  assumes "wf_visual s" and "b \<in> set (joinExit (barContainer s) (dataPoints vm))"
  shows "node b \<notin> set (map node (barContainer (render d3 vm vp s)))"
proof -
  let ?m = "length (dataPoints vm)"
  let ?old = "barContainer s"
  from assms(1) have "distinct (map node (take ?m ?old) @ map node (drop ?m ?old))"
    by (simp add: wf_visual_def map_append [symmetric] del: map_append distinct_map)
  then have disj: "set (map node (take ?m ?old)) \<inter> set (map node (drop ?m ?old)) = {}"
    by (simp only: distinct_append)
  from assms(2) have in_drop: "node b \<in> set (map node (drop ?m ?old))"
    by (simp add: joinExit_def)
  from assms have "node b < next_node s"
    by (auto simp: wf_visual_def joinExit_def dest: in_set_dropD)
  with disj in_drop show ?thesis
    unfolding map_node_render by (auto simp del: set_map)
qed

lemma listening_render: "listening (render d3 vm vp s)"
  unfolding listening_def barContainer_render
  by (auto simp: onClick_def)

lemma find_node:
  "distinct (map node bs) \<Longrightarrow> i < length bs \<Longrightarrow>
     find (\<lambda>b. node b = node (bs ! i)) bs = Some (bs ! i)"
proof (induction bs arbitrary: i)
  case Nil
  then show ?case by simp
next
  case (Cons b bs)
  then show ?case by (cases i) auto
qed

lemma click_bar:
  assumes "wf_visual s" and "listening s" and "i < length (barContainer s)"
  shows "click s (node (barContainer s ! i)) =
           Some \<lparr>requested = selectionID (datum (barContainer s ! i)),
                 captured = map node (barContainer s),
                 clicked = node (barContainer s ! i)\<rparr>"
proof -
  from assms(1) have "distinct (map node (barContainer s))"
    by (simp add: wf_visual_def)
  from find_node [OF this assms(3)] have
    f: "find (\<lambda>b. node b = node (barContainer s ! i)) (barContainer s) = Some (barContainer s ! i)" .
  from assms(2,3) have "on_click (barContainer s ! i) = Some (map node (barContainer s))"
    by (simp add: listening_def)
  with f show ?thesis by (simp add: click_def)
qed

lemma dimBars_all:
  "dimBars (map node bs) ids bs =
     map (\<lambda>b. b\<lparr>fill_opacity := Some (if length ids > 0 then 1 / 2 else 1)\<rparr>) bs"
  by (simp add: dimBars_def)

lemma nth_highlight:
  "distinct (map node bs) \<Longrightarrow> i < length bs \<Longrightarrow> j < length bs \<Longrightarrow>
     highlight (node (bs ! i)) bs ! j =
       (if j = i then (bs ! j)\<lparr>fill_opacity := Some 1\<rparr> else bs ! j)"
proof -
  assume d: "distinct (map node bs)" and i: "i < length bs" and j: "j < length bs"
  have "node (bs ! j) = node (bs ! i) \<longleftrightarrow> j = i"
    using nth_eq_iff_index_eq [OF d, of j i] i j by simp
  with j show ?thesis by (simp add: highlight_def)
qed

lemma nth_render:
  assumes "i < length (dataPoints vm)"
  shows "barContainer (render d3 vm vp s) ! i =
     (setAttrs d3 (yScale vm (effectiveHeight (settings vm) (height vp)))
        (xScale vm (width vp)) (effectiveHeight (settings vm) (height vp))
        (if i < length (barContainer s) then (barContainer s ! i)\<lparr>datum := dataPoints vm ! i\<rparr>
         else newBar (next_node s + (i - length (barContainer s))) (dataPoints vm ! i)))
     \<lparr>on_click := Some (map node (barContainer (render d3 vm vp s)))\<rparr>"
proof -
  let ?J = "joinUpdate (barContainer s) (dataPoints vm) @
            joinEnter (next_node s) (barContainer s) (dataPoints vm)"
  from assms have i: "i < length ?J" by (simp only: length_joined)
  have "map node (barContainer (render d3 vm vp s)) = map node ?J"
    by (simp add: barContainer_render map_node_onClick o_node_setAttrs del: map_append)
  with i show ?thesis
    unfolding barContainer_render onClick_def
    by (simp add: nth_joined [OF assms] o_node_setAttrs del: map_append)
qed

lemma host_render: "host (render d3 vm vp s) = host s"
  by (simp add: render_def Let_def)

lemma update_render:
  "visualTransform options (host s) = Inr vm \<Longrightarrow>
     update d3 options s = Inr (render d3 vm (viewport options) s)"
  by (simp add: update_def)

lemma update_cases:
  "update d3 options s = Inr s' \<Longrightarrow>
     \<exists>vm. visualTransform options (host s) = Inr vm \<and> s' = render d3 vm (viewport options) s"
  by (auto simp: update_def split: sum.splits)

lemma map_node_highlight: "map node (highlight n bs) = map node bs"
  by (simp add: highlight_def)

lemma map_node_dimBars: "map node (dimBars sel ids bs) = map node bs"
  by (simp add: dimBars_def)

lemma map_on_click_highlight: "map on_click (highlight n bs) = map on_click bs"
  by (simp add: highlight_def)

lemma map_on_click_dimBars: "map on_click (dimBars sel ids bs) = map on_click bs"
  by (simp add: dimBars_def)

lemma wf_visual_onSelected: "wf_visual s \<Longrightarrow> wf_visual (onSelected req ids s)"
proof -
  assume "wf_visual s"
  moreover have "map node (barContainer (onSelected req ids s)) = map node (barContainer s)"
    by (simp add: onSelected_def map_node_highlight map_node_dimBars)
  moreover have "next_node (onSelected req ids s) = next_node s"
    by (simp add: onSelected_def)
  ultimately show ?thesis
    unfolding wf_visual_def by (metis (no_types, lifting) image_eqI list.set_map imageE)
qed

lemma listening_onSelected: "listening s \<Longrightarrow> listening (onSelected req ids s)"
  by (auto simp: listening_def onSelected_def highlight_def dimBars_def o_def)

text \<open>The table of the four countries transforms into the sample view model, and the
  first call of \<open>update\<close> with it draws the sample chart.\<close>

lemma visualTransform_countries:
  "visualTransform (table_of (Some [countries]) (Some [sales]) None) sample_host =
     Inr (chart_model False)"
  by (simp add: visualTransform_def guard_def table_of_def transformRows_def chart_model_def
      getOptionValue_def defaultSettings_def countries_def sales_def eval_nat_numeral
      dataPointAt_def at_index_def sample_host_def)

lemma update_countries:
  "update sample_d3 (table_of (Some [countries]) (Some [sales]) None) (construct sample_host) =
     Inr drawn"
proof -
  have "host (construct sample_host) = sample_host"
    by (simp add: construct_def)
  with visualTransform_countries have
    "visualTransform (table_of (Some [countries]) (Some [sales]) None)
       (host (construct sample_host)) = Inr (chart_model False)"
    by simp
  from update_render [OF this, of sample_d3] show ?thesis
    by (simp add: drawn_def table_of_def surface_def)
qed

lemma barContainer_drawn:
  "barContainer drawn =
     map (\<lambda>b. b\<lparr>on_click := Some [0, 1, 2, 3]\<rparr>)
       (map (setAttrs sample_d3 (yScale (chart_model False) 300)
               (xScale (chart_model False) 400) 300)
          (appendBars 0 (dataPoints (chart_model False))))"
  by (simp add: drawn_def barContainer_render joinUpdate_def joinEnter_def construct_def
      surface_def effectiveHeight_def onClick_def)
     (simp add: chart_model_def setAttrs_def newBar_def)

subsection \<open>The axis\<close>

text \<open>
  Claim C2, as stated: the axis is drawn against the category scale if and only if
  \<^verbatim>\<open>enableAxis.show\<close> is true, and switching it off removes the ticks. The call of the
  axis on the group \<^verbatim>\<open>xAxis\<close> is under no condition. After a call of \<open>update\<close> with
  the axis on and a second one with the axis off, the group holds the axis of the four
  categories, moved to the full height of the surface.
\<close>

theorem axis_drawn_when_hidden:
  "\<not> showAxis (enableAxis (settings (chart_model False))) \<and>
   xAxis_axis (render sample_d3 (chart_model False) surface
                 (render sample_d3 (chart_model True) surface (construct sample_host))) =
     Some \<lparr>axis_scale =
            \<lparr>ord_domain = [PStr ''China'', PStr ''USA'', PStr ''India'', PStr ''Germany''],
             bands_range = (0, 400), padding = 1 / 10, outerPadding = 2 / 10\<rparr>,
           orient = ''bottom''\<rparr> \<and>
   xAxis_transform (render sample_d3 (chart_model False) surface
                 (render sample_d3 (chart_model True) surface (construct sample_host))) =
     Some (0, 300)"
  by (simp add: render_def Let_def xScale_def effectiveHeight_def chart_model_def surface_def)

text \<open>
  Claim C2, amended: every call of \<open>update\<close>, whether \<^verbatim>\<open>enableAxis.show\<close> is true or
  false, draws the axis, oriented to the bottom, against the category scale (the
  categories of the data points over the full width, with paddings 0.1 and 0.2), anchored
  at the bottom of the effective plot area: at the surface height less 25 where the
  setting is true, and at the full surface height where it is false. A later call with
  the same data points and the same width leaves the axis that is drawn as it is,
  whatever the setting of either call is: switching the setting off does not remove the
  ticks.
\<close>

theorem render_axis_always_drawn:
  "xAxis_axis (render d3 vm vp s) =
     Some \<lparr>axis_scale =
            \<lparr>ord_domain = map category (dataPoints vm), bands_range = (0, width vp),
             padding = 1 / 10, outerPadding = 2 / 10\<rparr>,
           orient = ''bottom''\<rparr> \<and>
   xAxis_transform (render d3 vm vp s) =
     Some (0, if showAxis (enableAxis (settings vm)) then height vp - 25 else height vp) \<and>
   (dataPoints vm' = dataPoints vm \<and> width vp' = width vp \<longrightarrow>
      xAxis_axis (render d3 vm' vp' (render d3 vm vp s)) = xAxis_axis (render d3 vm vp s))"
  by (simp add: render_def Let_def xScale_def effectiveHeight_def)

text \<open>The four countries drawn with the axis on, then with the axis off: the axis of the
  four categories stays, anchored at 275 and then at 300.\<close>

theorem render_axis_always_drawn_witness:
  "dataPoints (chart_model False) = dataPoints (chart_model True) \<and>
   xAxis_axis (render sample_d3 (chart_model True) surface (construct sample_host)) =
     Some \<lparr>axis_scale =
            \<lparr>ord_domain = [PStr ''China'', PStr ''USA'', PStr ''India'', PStr ''Germany''],
             bands_range = (0, 400), padding = 1 / 10, outerPadding = 2 / 10\<rparr>,
           orient = ''bottom''\<rparr> \<and>
   xAxis_transform (render sample_d3 (chart_model True) surface (construct sample_host)) =
     Some (0, 275) \<and>
   xAxis_axis (render sample_d3 (chart_model False) surface
                 (render sample_d3 (chart_model True) surface (construct sample_host))) =
     xAxis_axis (render sample_d3 (chart_model True) surface (construct sample_host)) \<and>
   xAxis_transform drawn = Some (0, 300)"
proof -
  have same: "dataPoints (chart_model False) = dataPoints (chart_model True)"
    by (simp add: chart_model_def)
  note on = render_axis_always_drawn
              [where ?d3.0 = sample_d3 and vm = "chart_model True" and vp = surface
                 and s = "construct sample_host" and vm' = "chart_model False"
                 and vp' = surface]
  note off = render_axis_always_drawn
              [where ?d3.0 = sample_d3 and vm = "chart_model False" and vp = surface
                 and s = "construct sample_host" and vm' = "chart_model False"
                 and vp' = surface]
  from on same have
    "xAxis_axis (render sample_d3 (chart_model False) surface
                 (render sample_d3 (chart_model True) surface (construct sample_host))) =
     xAxis_axis (render sample_d3 (chart_model True) surface (construct sample_host))"
    by blast
  moreover from on have
    "xAxis_axis (render sample_d3 (chart_model True) surface (construct sample_host)) =
     Some \<lparr>axis_scale =
            \<lparr>ord_domain = [PStr ''China'', PStr ''USA'', PStr ''India'', PStr ''Germany''],
             bands_range = (0, 400), padding = 1 / 10, outerPadding = 2 / 10\<rparr>,
           orient = ''bottom''\<rparr> \<and>
     xAxis_transform (render sample_d3 (chart_model True) surface (construct sample_host)) =
       Some (0, 275)"
    by (simp add: chart_model_def surface_def)
  moreover from off have "xAxis_transform drawn = Some (0, 300)"
    by (simp add: drawn_def chart_model_def surface_def)
  ultimately show ?thesis
    using same by blast
qed

subsection \<open>The plot height\<close>

text \<open>
  Claim C5: in every call of \<open>update\<close> the effective plot height is the surface height
  less 25 if and only if \<^verbatim>\<open>enableAxis.show\<close> of the settings of the view model, which
  the call stores as the chart settings, is true, and the full surface height otherwise.
  It is the height the axis is anchored at and the start of the range of the value scale
  the bars are placed with. The width is not reduced: the category scale ranges over the
  full width of the viewport, and the surface has the size of the viewport.
\<close>

theorem render_effective_height:
  "chartSettings (render d3 vm vp s) = Some (settings vm) \<and>
   (effectiveHeight (settings vm) (height vp) = height vp - 25
      \<longleftrightarrow> showAxis (enableAxis (settings vm))) \<and>
   (effectiveHeight (settings vm) (height vp) = height vp
      \<longleftrightarrow> \<not> showAxis (enableAxis (settings vm))) \<and>
   xAxis_transform (render d3 vm vp s) = Some (0, effectiveHeight (settings vm) (height vp)) \<and>
   (\<forall>b \<in> set (barContainer (render d3 vm vp s)).
      attr_y b = Some (linear d3
          \<lparr>lin_domain = (PNum 0, dataMax vm),
           lin_range = (effectiveHeight (settings vm) (height vp), 0)\<rparr> (dp_value (datum b)))) \<and>
   map_option (\<lambda>a. bands_range (axis_scale a)) (xAxis_axis (render d3 vm vp s)) =
     Some (0, width vp) \<and>
   svg_width (render d3 vm vp s) = Some (width vp) \<and>
   svg_height (render d3 vm vp s) = Some (height vp)"
proof -
  have "\<forall>b \<in> set (barContainer (render d3 vm vp s)).
      attr_y b = Some (linear d3
          \<lparr>lin_domain = (PNum 0, dataMax vm),
           lin_range = (effectiveHeight (settings vm) (height vp), 0)\<rparr> (dp_value (datum b)))"
    by (auto simp: barContainer_render onClick_def setAttrs_def yScale_def)
  moreover have "chartSettings (render d3 vm vp s) = Some (settings vm)"
    and "xAxis_transform (render d3 vm vp s) = Some (0, effectiveHeight (settings vm) (height vp))"
    and "map_option (\<lambda>a. bands_range (axis_scale a)) (xAxis_axis (render d3 vm vp s)) =
     Some (0, width vp)"
    and "svg_width (render d3 vm vp s) = Some (width vp)"
    and "svg_height (render d3 vm vp s) = Some (height vp)"
    by (simp_all add: render_def Let_def xScale_def)
  moreover have "effectiveHeight (settings vm) (height vp) = height vp - 25
      \<longleftrightarrow> showAxis (enableAxis (settings vm))"
    and "effectiveHeight (settings vm) (height vp) = height vp
      \<longleftrightarrow> \<not> showAxis (enableAxis (settings vm))"
    by (simp_all add: effectiveHeight_def)
  ultimately show ?thesis by blast
qed

theorem render_effective_height_witness:
  "effectiveHeight (settings (chart_model True)) (height surface) = 275 \<and>
   effectiveHeight (settings (chart_model False)) (height surface) = 300 \<and>
   xAxis_transform (render sample_d3 (chart_model True) surface (construct sample_host)) =
     Some (0, 275) \<and>
   xAxis_transform (render sample_d3 (chart_model False) surface (construct sample_host)) =
     Some (0, 300) \<and>
   svg_height (render sample_d3 (chart_model True) surface (construct sample_host)) =
     Some 300 \<and>
   map_option (\<lambda>a. bands_range (axis_scale a))
     (xAxis_axis (render sample_d3 (chart_model True) surface (construct sample_host))) =
     Some (0, 400)"
proof -
  have t: "showAxis (enableAxis (settings (chart_model True)))"
    and f: "\<not> showAxis (enableAxis (settings (chart_model False)))"
    by (simp_all add: chart_model_def)
  have h: "height surface = 300" and w: "width surface = 400"
    by (simp_all add: surface_def)
  note on = render_effective_height
              [where ?d3.0 = sample_d3 and vm = "chart_model True" and vp = surface
                 and s = "construct sample_host"]
  note off = render_effective_height
              [where ?d3.0 = sample_d3 and vm = "chart_model False" and vp = surface
                 and s = "construct sample_host"]
  from on t have e1: "effectiveHeight (settings (chart_model True)) (height surface) = 275"
    by (simp add: h)
  from off f have e2: "effectiveHeight (settings (chart_model False)) (height surface) = 300"
    by (simp add: h)
  from on off e1 e2 show ?thesis
    by (simp add: h w)
qed

subsection \<open>The bars\<close>

text \<open>
  Claim C6: every call of \<open>update\<close> reconciles the bars with the data points of the view
  model by position. Afterwards there is one bar for each data point, bound to it, with
  width the band width of the category scale, height the effective height less the value
  scale at the value, x the category scale at the category, y the value scale at the
  value and fill the colour, where the value scale has domain 0 to \<open>dataMax\<close> and range
  from the effective height to 0. A bar at a position that had a bar before is that
  element, changed in place (its opacity is kept); a bar at a position past the old bars
  is a new element; and the old bars past the last data point are no longer in the
  container.
\<close>

theorem render_reconciles_bars:
  "(let s' = render d3 vm vp s;
        old = barContainer s;
        dps = dataPoints vm;
        h = effectiveHeight (settings vm) (height vp);
        valueScale = \<lparr>lin_domain = (PNum 0, dataMax vm), lin_range = (h, 0)\<rparr>;
        categoryScale = xScale vm (width vp)
    in length (barContainer s') = length dps \<and>
       (\<forall>i < length dps.
          datum (barContainer s' ! i) = dps ! i \<and>
          attr_width (barContainer s' ! i) = Some (rangeBand d3 categoryScale) \<and>
          attr_height (barContainer s' ! i) =
            Some (h - linear d3 valueScale (dp_value (dps ! i))) \<and>
          attr_x (barContainer s' ! i) = Some (ordinal d3 categoryScale (category (dps ! i))) \<and>
          attr_y (barContainer s' ! i) = Some (linear d3 valueScale (dp_value (dps ! i))) \<and>
          attr_fill (barContainer s' ! i) = Some (color (dps ! i))) \<and>
       (\<forall>i < length dps. i < length old \<longrightarrow>
          node (barContainer s' ! i) = node (old ! i) \<and>
          fill_opacity (barContainer s' ! i) = fill_opacity (old ! i)) \<and>
       (\<forall>i < length dps. length old \<le> i \<longrightarrow>
          node (barContainer s' ! i) = next_node s + (i - length old) \<and>
          (wf_visual s \<longrightarrow> node (barContainer s' ! i) \<notin> set (map node old))) \<and>
       (wf_visual s \<longrightarrow>
          (\<forall>b \<in> set (drop (length dps) old). node b \<notin> set (map node (barContainer s')))))"
proof -
  let ?s' = "render d3 vm vp s"
  let ?h = "effectiveHeight (settings vm) (height vp)"
  have len: "length (barContainer ?s') = length (dataPoints vm)"
    by (rule length_render)
  have attrs: "datum (barContainer ?s' ! i) = dataPoints vm ! i \<and>
          attr_width (barContainer ?s' ! i) = Some (rangeBand d3 (xScale vm (width vp))) \<and>
          attr_height (barContainer ?s' ! i) =
            Some (?h - linear d3 \<lparr>lin_domain = (PNum 0, dataMax vm), lin_range = (?h, 0)\<rparr>
                    (dp_value (dataPoints vm ! i))) \<and>
          attr_x (barContainer ?s' ! i) =
            Some (ordinal d3 (xScale vm (width vp)) (category (dataPoints vm ! i))) \<and>
          attr_y (barContainer ?s' ! i) =
            Some (linear d3 \<lparr>lin_domain = (PNum 0, dataMax vm), lin_range = (?h, 0)\<rparr>
                    (dp_value (dataPoints vm ! i))) \<and>
          attr_fill (barContainer ?s' ! i) = Some (color (dataPoints vm ! i))"
    if "i < length (dataPoints vm)" for i
    by (simp add: nth_render [OF that] setAttrs_def newBar_def yScale_def)
  have kept: "node (barContainer ?s' ! i) = node (barContainer s ! i) \<and>
          fill_opacity (barContainer ?s' ! i) = fill_opacity (barContainer s ! i)"
    if "i < length (dataPoints vm)" and "i < length (barContainer s)" for i
    using that(2) by (simp add: nth_render [OF that(1)] setAttrs_def)
  have made: "node (barContainer ?s' ! i) = next_node s + (i - length (barContainer s))"
    if "i < length (dataPoints vm)" and "length (barContainer s) \<le> i" for i
    using that(2) by (simp add: nth_render [OF that(1)] setAttrs_def newBar_def)
  have fresh: "node (barContainer ?s' ! i) \<notin> set (map node (barContainer s))"
    if "i < length (dataPoints vm)" and "length (barContainer s) \<le> i" and "wf_visual s" for i
    using that(3) made [OF that(1,2)] by (auto simp: wf_visual_def)
  have gone: "node b \<notin> set (map node (barContainer ?s'))"
    if "wf_visual s" and "b \<in> set (drop (length (dataPoints vm)) (barContainer s))" for b
    using exit_removed [of s b vm d3 vp] that by (simp add: joinExit_def)
  show ?thesis
    unfolding Let_def using len attrs kept made fresh gone by blast
qed

text \<open>The first call creates the four bars of the countries; a later call with two data
  points keeps the first two elements and removes the other two.\<close>

theorem render_reconciles_bars_witness:
  "wf_visual (construct sample_host) \<and> wf_visual drawn \<and>
   length (barContainer drawn) = 4 \<and>
   map node (barContainer drawn) = [0, 1, 2, 3] \<and>
   attr_y (barContainer drawn ! 0) = Some (300 / 11) \<and>
   attr_height (barContainer drawn ! 0) = Some (300 - 300 / 11) \<and>
   attr_x (barContainer drawn ! 1) = Some 100 \<and>
   attr_width (barContainer drawn ! 1) = Some 90 \<and>
   attr_fill (barContainer drawn ! 0) = Some ''#01B8AA'' \<and>
   length (barContainer (render sample_d3 short_model surface drawn)) = 2 \<and>
   node (barContainer (render sample_d3 short_model surface drawn) ! 1) = 1 \<and>
   2 \<notin> set (map node (barContainer (render sample_d3 short_model surface drawn))) \<and>
   3 \<notin> set (map node (barContainer (render sample_d3 short_model surface drawn)))"
proof -
  have wf0: "wf_visual (construct sample_host)"
    by (rule wf_visual_construct)
  then have wf1: "wf_visual drawn"
    unfolding drawn_def by (rule wf_visual_render)
  have old: "barContainer (construct sample_host) = []"
    and nn: "next_node (construct sample_host) = 0"
    by (simp_all add: construct_def)
  note first = render_reconciles_bars
                 [where ?d3.0 = sample_d3 and vm = "chart_model False" and vp = surface
                    and s = "construct sample_host", unfolded Let_def, folded drawn_def]
  have dps: "dataPoints (chart_model False) =
        [\<lparr>dp_value = PNum 10, category = PStr ''China'', color = ''#01B8AA'', selectionID = 0\<rparr>,
         \<lparr>dp_value = PNum 8, category = PStr ''USA'', color = ''#374649'', selectionID = 1\<rparr>,
         \<lparr>dp_value = PNum 11, category = PStr ''India'', color = ''#374649'', selectionID = 2\<rparr>,
         \<lparr>dp_value = PNum 5, category = PStr ''Germany'', color = ''#374649'', selectionID = 3\<rparr>]"
    and dm: "dataMax (chart_model False) = PNum 11"
    and st: "settings (chart_model False) = \<lparr>enableAxis = \<lparr>showAxis = False\<rparr>\<rparr>"
    by (simp_all add: chart_model_def)
  from first have len: "length (barContainer drawn) = 4"
    by (simp add: dps)
  from first have nodes: "\<forall>i < 4. node (barContainer drawn ! i) = i"
    by (simp add: dps old nn)
  have "map node (barContainer drawn) = [0, 1, 2, 3]"
    by (simp add: barContainer_drawn chart_model_def setAttrs_def newBar_def)
  moreover from first have
    "attr_y (barContainer drawn ! 0) = Some (300 / 11) \<and>
     attr_height (barContainer drawn ! 0) = Some (300 - 300 / 11) \<and>
     attr_x (barContainer drawn ! 1) = Some 100 \<and>
     attr_width (barContainer drawn ! 1) = Some 90 \<and>
     attr_fill (barContainer drawn ! 0) = Some ''#01B8AA''"
    by (simp add: dps dm st effectiveHeight_def surface_def xScale_def sample_d3_def)
  moreover
  note second = render_reconciles_bars
                 [where ?d3.0 = sample_d3 and vm = short_model and vp = surface
                    and s = drawn, unfolded Let_def]
  have sdps: "length (dataPoints short_model) = 2"
    by (simp add: short_model_def)
  have dr: "drop 2 (barContainer drawn) = [barContainer drawn ! 2, barContainer drawn ! 3]"
    using len by (simp add: list_eq_iff_nth_eq less_Suc_eq eval_nat_numeral)
  from second wf1 have
    "length (barContainer (render sample_d3 short_model surface drawn)) = 2 \<and>
     node (barContainer (render sample_d3 short_model surface drawn) ! 1) = 1 \<and>
     2 \<notin> set (map node (barContainer (render sample_d3 short_model surface drawn))) \<and>
     3 \<notin> set (map node (barContainer (render sample_d3 short_model surface drawn)))"
    using nodes by (simp add: sdps len dr del: set_map)
  ultimately show ?thesis
    using wf0 wf1 len by blast
qed

subsection \<open>Selection\<close>

text \<open>Every call of \<open>update\<close> that returns keeps the identities of the elements apart
  and leaves every bar with its listener; so does an answer of the selection manager
  (\<open>wf_visual_onSelected\<close>, \<open>listening_onSelected\<close>).\<close>

lemma update_invariant:
  assumes "wf_visual s" and "update d3 options s = Inr s'"
  shows "wf_visual s' \<and> listening s'"
proof -
  from assms(2) obtain vm where "s' = render d3 vm (viewport options) s"
    using update_cases by blast
  with assms(1) show ?thesis
    by (simp add: wf_visual_render listening_render)
qed

text \<open>
  Claim C7, as stated: when the answer to the click arrives, the opacity of every bar is
  set to 0.5 if there is a selected identity. The continuation sets the bars of the
  selection the listener closes over, the bars of the last call of \<open>update\<close> before the
  click. After a click on the second of the four bars, a call of \<open>update\<close> with a fifth
  data point creates a fifth bar; the answer with one selected identity then leaves that
  bar without an opacity.
\<close>

theorem new_bar_not_dimmed:
  "click drawn (node (barContainer drawn ! 1)) =
     Some \<lparr>requested = 1, captured = [0, 1, 2, 3], clicked = 1\<rparr> \<and>
   length (barContainer (render sample_d3 five_model surface drawn)) = 5 \<and>
   fill_opacity
     (barContainer
        (onSelected \<lparr>requested = 1, captured = [0, 1, 2, 3], clicked = 1\<rparr> [1]
           (render sample_d3 five_model surface drawn)) ! 0) = Some (1 / 2) \<and>
   fill_opacity
     (barContainer
        (onSelected \<lparr>requested = 1, captured = [0, 1, 2, 3], clicked = 1\<rparr> [1]
           (render sample_d3 five_model surface drawn)) ! 4) = None"
proof -
  let ?t = "render sample_d3 five_model surface drawn"
  let ?req = "\<lparr>requested = 1, captured = [0, 1, 2, 3], clicked = 1\<rparr> :: nat SelectRequest"
  have c: "click drawn (node (barContainer drawn ! 1)) = Some ?req"
    by (simp add: click_def barContainer_drawn chart_model_def setAttrs_def newBar_def)
  have len: "length (barContainer drawn) = 4"
    unfolding drawn_def by (simp add: length_render chart_model_def)
  have nn: "next_node drawn = 4"
    by (simp add: drawn_def next_node_render construct_def chart_model_def)
  have n0: "node (barContainer drawn ! 0) = 0"
    by (simp add: barContainer_drawn chart_model_def setAttrs_def newBar_def)
  have lent: "length (barContainer ?t) = 5"
    by (simp add: length_render five_model_def)
  have l5: "length (dataPoints five_model) = 5"
    by (simp add: five_model_def)
  then have i0: "0 < length (dataPoints five_model)" and i4: "4 < length (dataPoints five_model)"
    by simp_all
  have b0: "node (barContainer ?t ! 0) = 0"
    by (simp add: nth_render [OF i0] len n0 setAttrs_def)
  have b4: "node (barContainer ?t ! 4) = 4 \<and> fill_opacity (barContainer ?t ! 4) = None"
    by (simp add: nth_render [OF i4] len nn setAttrs_def newBar_def)
  have "fill_opacity (barContainer (onSelected ?req [1] ?t) ! 0) = Some (1 / 2)"
    using b0 lent by (simp add: onSelected_def highlight_def dimBars_def)
  moreover have "fill_opacity (barContainer (onSelected ?req [1] ?t) ! 4) = None"
    using b4 lent by (simp add: onSelected_def highlight_def dimBars_def)
  ultimately show ?thesis
    using c lent by simp
qed

text \<open>
  Claim C7, amended: a click on a bar asks the selection manager of the host to select the
  selection identity of that bar. When the answer, the selected identities, arrives, the
  opacity of every bar that was in the chart at the click and is still there is set to
  0.5 if there is a selected identity and to 1 if there is none, and then the opacity of
  the clicked bar is set to 1; a bar created between the click and the answer is left as
  it is. In particular, where the answer arrives in the state of the click, every bar is
  set. The click is made in a state \<open>s\<close> whose bars carry the listener of the last call of
  \<open>update\<close> (every state after such a call, \<open>update_invariant\<close>); the answer arrives in
  any state \<open>t\<close>.
\<close>

theorem click_dims_and_highlights:
  assumes "wf_visual s" and "listening s" and "i < length (barContainer s)"
  shows "\<exists>req. click s (node (barContainer s ! i)) = Some req \<and>
     requested req = selectionID (datum (barContainer s ! i)) \<and>
     barContainer (onSelected req ids t) =
       highlight (node (barContainer s ! i)) (dimBars (captured req) ids (barContainer t)) \<and>
     length (barContainer (onSelected req ids t)) = length (barContainer t) \<and>
     (\<forall>j < length (barContainer t).
        (node (barContainer t ! j) \<in> set (map node (barContainer s)) \<longrightarrow>
           fill_opacity (dimBars (captured req) ids (barContainer t) ! j) =
             Some (if length ids > 0 then 1 / 2 else 1) \<and>
           fill_opacity (barContainer (onSelected req ids t) ! j) =
             Some (if node (barContainer t ! j) = node (barContainer s ! i) then 1
                   else if length ids > 0 then 1 / 2 else 1)) \<and>
        (node (barContainer t ! j) \<notin> set (map node (barContainer s)) \<longrightarrow>
           barContainer (onSelected req ids t) ! j = barContainer t ! j)) \<and>
     (\<forall>j < length (barContainer s).
        fill_opacity (dimBars (captured req) ids (barContainer s) ! j) =
          Some (if length ids > 0 then 1 / 2 else 1) \<and>
        fill_opacity (barContainer (onSelected req ids s) ! j) =
          Some (if j = i then 1 else if length ids > 0 then 1 / 2 else 1))"
proof -
  let ?bs = "barContainer s"
  let ?req = "\<lparr>requested = selectionID (datum (?bs ! i)), captured = map node ?bs,
               clicked = node (?bs ! i)\<rparr>"
  let ?o = "Some (if length ids > 0 then 1 / 2 else (1 :: real))"
  have c: "click s (node (?bs ! i)) = Some ?req"
    by (rule click_bar [OF assms])
  from assms(3) have mem: "node (?bs ! i) \<in> set (map node ?bs)"
    by simp
  have sel: "barContainer (onSelected ?req ids u) =
               highlight (node (?bs ! i)) (dimBars (map node ?bs) ids (barContainer u))" for u
    by (simp add: onSelected_def)
  have len: "length (barContainer (onSelected ?req ids t)) = length (barContainer t)"
    by (simp add: sel highlight_def dimBars_def)
  have inside: "fill_opacity (dimBars (map node ?bs) ids (barContainer u) ! j) = ?o \<and>
      fill_opacity (barContainer (onSelected ?req ids u) ! j) =
        Some (if node (barContainer u ! j) = node (?bs ! i) then 1
              else if length ids > 0 then 1 / 2 else 1)"
    if "j < length (barContainer u)"
      and "node (barContainer u ! j) \<in> set (map node ?bs)" for u j
    using that by (simp add: sel highlight_def dimBars_def)
  have outside: "barContainer (onSelected ?req ids t) ! j = barContainer t ! j"
    if "j < length (barContainer t)"
      and "node (barContainer t ! j) \<notin> set (map node ?bs)" for j
  proof -
    from that(2) mem have "node (barContainer t ! j) \<noteq> node (?bs ! i)"
      by metis
    with that show ?thesis
      by (simp add: sel highlight_def dimBars_def)
  qed
  have here: "fill_opacity (dimBars (map node ?bs) ids ?bs ! j) = ?o \<and>
      fill_opacity (barContainer (onSelected ?req ids s) ! j) =
        Some (if j = i then 1 else if length ids > 0 then 1 / 2 else 1)"
    if "j < length ?bs" for j
  proof -
    from assms(1) have d: "distinct (map node ?bs)"
      by (simp add: wf_visual_def)
    have "node (?bs ! j) = node (?bs ! i) \<longleftrightarrow> j = i"
      using nth_eq_iff_index_eq [OF d, of j i] that assms(3) by simp
    moreover from that have "node (?bs ! j) \<in> set (map node ?bs)"
      by simp
    ultimately show ?thesis
      using inside [of j s] that by simp
  qed
  from c sel [of t] len inside [of _ t] outside here show ?thesis
    by (intro exI [of _ ?req]) simp
qed

text \<open>The click on the second of the four bars, answered with one selected identity in
  the state of the click, and answered after a fifth bar has been created.\<close>

theorem click_dims_and_highlights_witness:
  "wf_visual drawn \<and> listening drawn \<and> 1 < length (barContainer drawn) \<and>
   (\<exists>req. click drawn (node (barContainer drawn ! 1)) = Some req \<and>
      requested req = 1 \<and>
      fill_opacity (barContainer (onSelected req [1] drawn) ! 0) = Some (1 / 2) \<and>
      fill_opacity (barContainer (onSelected req [1] drawn) ! 1) = Some 1 \<and>
      fill_opacity (barContainer (onSelected req [1] drawn) ! 2) = Some (1 / 2) \<and>
      fill_opacity (barContainer (onSelected req [1] drawn) ! 3) = Some (1 / 2) \<and>
      barContainer (onSelected req [1] (render sample_d3 five_model surface drawn)) ! 4 =
        barContainer (render sample_d3 five_model surface drawn) ! 4)"
proof -
  let ?t = "render sample_d3 five_model surface drawn"
  have wf: "wf_visual drawn"
    unfolding drawn_def by (rule wf_visual_render) (rule wf_visual_construct)
  have li: "listening drawn"
    unfolding drawn_def by (rule listening_render)
  have len: "length (barContainer drawn) = 4"
    unfolding drawn_def by (simp add: length_render chart_model_def)
  then have i: "1 < length (barContainer drawn)"
    by simp
  have nodes: "map node (barContainer drawn) = [0, 1, 2, 3]"
    by (simp add: barContainer_drawn chart_model_def setAttrs_def newBar_def)
  have lent: "length (barContainer ?t) = 5"
    by (simp add: length_render five_model_def)
  have nn: "next_node drawn = 4"
    by (simp add: drawn_def next_node_render construct_def chart_model_def)
  have "map node (barContainer ?t) = [0, 1, 2, 3, 4]"
    by (simp add: map_node_render nodes nn len five_model_def take_map [symmetric]
        del: take_map)
  then have "map node (barContainer ?t) ! 4 = 4"
    by simp
  with lent have new: "node (barContainer ?t ! 4) = 4"
    by simp
  have d: "selectionID (datum (barContainer drawn ! 1)) = 1"
    by (simp add: barContainer_drawn chart_model_def setAttrs_def newBar_def)
  from click_dims_and_highlights [OF wf li i, of "[1]" ?t] obtain req where
    c: "click drawn (node (barContainer drawn ! 1)) = Some req"
    and r: "requested req = selectionID (datum (barContainer drawn ! 1))"
    and there: "\<forall>j < length (barContainer ?t).
        node (barContainer ?t ! j) \<notin> set (map node (barContainer drawn)) \<longrightarrow>
          barContainer (onSelected req [1] ?t) ! j = barContainer ?t ! j"
    and here: "\<forall>j < length (barContainer drawn).
        fill_opacity (dimBars (captured req) [1] (barContainer drawn) ! j) =
          Some (if length [1::nat] > 0 then 1 / 2 else 1) \<and>
        fill_opacity (barContainer (onSelected req [1] drawn) ! j) =
          Some (if j = 1 then 1 else if length [1::nat] > 0 then 1 / 2 else 1)"
    by blast
  from here have
    "fill_opacity (barContainer (onSelected req [1] drawn) ! 0) = Some (1 / 2) \<and>
     fill_opacity (barContainer (onSelected req [1] drawn) ! 1) = Some 1 \<and>
     fill_opacity (barContainer (onSelected req [1] drawn) ! 2) = Some (1 / 2) \<and>
     fill_opacity (barContainer (onSelected req [1] drawn) ! 3) = Some (1 / 2)"
    by (simp add: len)
  moreover from there new have
    "barContainer (onSelected req [1] ?t) ! 4 = barContainer ?t ! 4"
    by (simp add: lent nodes)
  ultimately show ?thesis
    using wf li i c r d by auto
qed

subsection \<open>Idempotence\<close>

text \<open>
  Claim C9: drawing is idempotent. A second call with the same view model and the same
  surface size leaves the state of the first call as it is: the same bars with the same
  positions, sizes and colours, and the same axis. This holds for the body of \<open>update\<close>
  on every view model, and for \<open>update\<close> itself on the same options.
\<close>

theorem render_idempotent:
  "render d3 vm vp (render d3 vm vp s) = render d3 vm vp s \<and>
   (\<forall>s'. update d3 options s = Inr s' \<longrightarrow> update d3 options s' = Inr s')"
proof
  show "render d3 vm vp (render d3 vm vp s) = render d3 vm vp s"
    by (rule render_twice)
next
  show "\<forall>s'. update d3 options s = Inr s' \<longrightarrow> update d3 options s' = Inr s'"
  proof (intro allI impI)
    fix s' assume "update d3 options s = Inr s'"
    then obtain vm' where vt: "visualTransform options (host s) = Inr vm'"
      and s': "s' = render d3 vm' (viewport options) s"
      using update_cases by blast
    from vt s' have "visualTransform options (host s') = Inr vm'"
      by (simp add: host_render)
    then have "update d3 options s' = Inr (render d3 vm' (viewport options) s')"
      by (rule update_render)
    with s' show "update d3 options s' = Inr s'"
      by (simp add: render_twice)
  qed
qed

theorem render_idempotent_witness:
  "render sample_d3 (chart_model False) surface drawn = drawn \<and>
   update sample_d3 (table_of (Some [countries]) (Some [sales]) None) (construct sample_host) =
     Inr drawn \<and>
   update sample_d3 (table_of (Some [countries]) (Some [sales]) None) drawn = Inr drawn"
proof -
  note idem = render_idempotent
                [where ?d3.0 = sample_d3 and vm = "chart_model False" and vp = surface
                   and s = "construct sample_host"
                   and options = "table_of (Some [countries]) (Some [sales]) None"]
  from idem have "render sample_d3 (chart_model False) surface drawn = drawn"
    by (simp add: drawn_def)
  moreover from idem update_countries have
    "update sample_d3 (table_of (Some [countries]) (Some [sales]) None) drawn = Inr drawn"
    by blast
  ultimately show ?thesis
    using update_countries by blast
qed

end
